theory Spec2Isabelle
  imports Complex_Main "HOL-Library.Word"
begin

section \<open>JavaScript values used by the scraper\<close>

text \<open>
  An optional string field of a JavaScript object: \<open>undefined\<close>, \<open>null\<close> or a string.
  The three are different keys of a \<open>Set\<close>; only a non-empty string is truthy.
\<close>

datatype js_string = Undefined | Null | Str string

fun truthy :: "js_string \<Rightarrow> bool" where
  "truthy (Str s) = (s \<noteq> [])"
| "truthy Undefined = False"
| "truthy Null = False"

text \<open>\<open>a || b\<close>: the left operand when it is truthy, otherwise the right one.\<close>

definition js_or :: "js_string \<Rightarrow> js_string \<Rightarrow> js_string" where
  "js_or a b = (if truthy a then a else b)"

text \<open>
  A JavaScript \<open>Set\<close> keeps its elements in insertion order and \<open>add\<close> of a present
  element changes nothing; it is a list without repetition.
\<close>

definition set_has :: "'a list \<Rightarrow> 'a \<Rightarrow> bool" where
  "set_has S x = (x \<in> set S)"

definition set_add :: "'a list \<Rightarrow> 'a \<Rightarrow> 'a list" where
  "set_add S x = (if x \<in> set S then S else S @ [x])"

text \<open>A value inside a template literal.\<close>

definition str_val :: "js_string \<Rightarrow> string" where
  "str_val v = (case v of Str s \<Rightarrow> s | Null \<Rightarrow> ''null'' | Undefined \<Rightarrow> ''undefined'')"

text \<open>
  Exceptions are values: a function that may throw returns \<open>Inl\<close> of the error or \<open>Inr\<close> of
  its result.
\<close>

datatype js_error = TypeError | SyntaxError | RangeError | Error string

text \<open>
  A value as \<open>JSON.parse\<close> gives it. A number is a double: a finite one is a rational.
  The members of an object are in insertion order, each name once.
\<close>

datatype js_number = Num rat | PlusInfinity | MinusInfinity

datatype json =
    JNull
  | JBool bool
  | JNumber js_number
  | JString string
  | JArray "json list"
  | JObject "(string \<times> json) list"

text \<open>Truthiness of such a value: \<open>null\<close>, \<open>false\<close>, \<open>0\<close> and \<open>''\<close> are falsy.\<close>

fun json_truthy :: "json \<Rightarrow> bool" where
  "json_truthy JNull = False"
| "json_truthy (JBool b) = b"
| "json_truthy (JNumber n) = (n \<noteq> Num 0)"
| "json_truthy (JString s) = (s \<noteq> [])"
| "json_truthy (JArray xs) = True"
| "json_truthy (JObject members) = True"

text \<open>
  A \<open>Set\<close> of such values compares primitives by value and arrays and objects by
  identity: every array or object that \<open>JSON.parse\<close> made is an element of its own.
\<close>

fun is_primitive :: "json \<Rightarrow> bool" where
  "is_primitive (JArray xs) = False"
| "is_primitive (JObject members) = False"
| "is_primitive JNull = True"
| "is_primitive (JBool b) = True"
| "is_primitive (JNumber n) = True"
| "is_primitive (JString s) = True"

definition value_set_add :: "json list \<Rightarrow> json \<Rightarrow> json list" where
  "value_set_add S x = (if is_primitive x \<and> x \<in> set S then S else S @ [x])"

definition new_value_Set :: "json list \<Rightarrow> json list" where
  "new_value_Set xs = foldl value_set_add [] xs"

text \<open>
  \<open>S.has(k)\<close> and \<open>S.add(k)\<close> for an identifier \<open>k\<close>, a string or \<open>null\<close> or \<open>undefined\<close>.
  No JSON value equals \<open>undefined\<close>; the scraper adds an identifier only after it has found
  it truthy, so \<open>undefined\<close> is never added.
\<close>

definition has_id :: "json list \<Rightarrow> js_string \<Rightarrow> bool" where
  "has_id S k =
     (case k of Str s \<Rightarrow> JString s \<in> set S | Null \<Rightarrow> JNull \<in> set S | Undefined \<Rightarrow> False)"

definition add_id :: "json list \<Rightarrow> js_string \<Rightarrow> json list" where
  "add_id S k =
     (case k of
        Str s \<Rightarrow> value_set_add S (JString s)
      | Null \<Rightarrow> value_set_add S JNull
      | Undefined \<Rightarrow> S)"

section \<open>Strings\<close>

text \<open>\<open>s.startsWith(t)\<close> and \<open>s.includes(t)\<close>.\<close>

definition startsWith :: "string \<Rightarrow> string \<Rightarrow> bool" where
  "startsWith s t = (take (length t) s = t)"

fun str_includes :: "string \<Rightarrow> string \<Rightarrow> bool" where
  "str_includes [] t = (t = [])"
| "str_includes (c # cs) t = (startsWith (c # cs) t \<or> str_includes cs t)"

definition is_digit :: "char \<Rightarrow> bool" where
  "is_digit c = (c \<in> set ''0123456789'')"

text \<open>White space, as \<open>trim\<close> and \<open>parseInt\<close> skip it, within the 8-bit \<open>char\<close> type.\<close>

definition is_space :: "char \<Rightarrow> bool" where
  "is_space c = (c \<in> set [CHR '' '', CHR 0x09, CHR 0x0A, CHR 0x0B, CHR 0x0C, CHR 0x0D, CHR 0xA0])"

text \<open>\<open>s.trim()\<close>.\<close>

definition trim :: "string \<Rightarrow> string" where
  "trim s = rev (dropWhile is_space (rev (dropWhile is_space s)))"

text \<open>
  \<open>toLowerCase\<close> on the ASCII letters; every other character of the 8-bit \<open>char\<close> type is
  left as it is.
\<close>

definition lower_char :: "char \<Rightarrow> char" where
  "lower_char c =
     (case map_of (zip ''ABCDEFGHIJKLMNOPQRSTUVWXYZ'' ''abcdefghijklmnopqrstuvwxyz'') c of
        Some d \<Rightarrow> d
      | None \<Rightarrow> c)"

definition toLowerCase :: "string \<Rightarrow> string" where
  "toLowerCase s = map lower_char s"

subsection \<open>The regular expressions of the scraper\<close>

text \<open>
  The scraper's patterns are sequences of literals, \<open>\d+\<close> and \<open>[^/]+\<close>. In each of
  them a character class is followed by a literal that starts outside the class, or ends
  the pattern, so the greedy match is the only match and no backtracking is needed.
  \<open>match_here\<close> matches at the start of the string and gives the rest after the match.
\<close>

datatype pat_item = Lit string | Digits | NonSlashes

fun match_here :: "pat_item list \<Rightarrow> string \<Rightarrow> string option" where
  "match_here [] s = Some s"
| "match_here (Lit l # ps) s =
     (if startsWith s l then match_here ps (drop (length l) s) else None)"
| "match_here (Digits # ps) s =
     (if takeWhile is_digit s = [] then None else match_here ps (dropWhile is_digit s))"
| "match_here (NonSlashes # ps) s =
     (if takeWhile (\<lambda>c. c \<noteq> CHR ''/'') s = [] then None
      else match_here ps (dropWhile (\<lambda>c. c \<noteq> CHR ''/'') s))"

text \<open>
  \<open>s.replace(/p/g, r)\<close> for a pattern that never matches the empty string: scan from the
  left, replace a match and go on after it. The counter is the number of characters of
  the current match still to skip.
\<close>

fun replace_all :: "pat_item list \<Rightarrow> string \<Rightarrow> nat \<Rightarrow> string \<Rightarrow> string" where
  "replace_all p r k [] = []"
| "replace_all p r (Suc k) (c # cs) = replace_all p r k cs"
| "replace_all p r 0 (c # cs) =
     (case match_here p (c # cs) of
        Some rest \<Rightarrow> r @ replace_all p r (length cs - length rest) cs
      | None \<Rightarrow> c # replace_all p r 0 cs)"

text \<open>\<open>currentUrl2.match(/stories\/[^/]+\/(\d+)/)\<close>: the group of the leftmost match.\<close>

definition story_pk_here :: "string \<Rightarrow> string option" where
  "story_pk_here s =
     (case match_here [Lit ''stories/'', NonSlashes, Lit ''/''] s of
        None \<Rightarrow> None
      | Some rest \<Rightarrow> (if takeWhile is_digit rest = [] then None
                      else Some (takeWhile is_digit rest)))"

fun story_pk_search :: "string \<Rightarrow> string option" where
  "story_pk_search [] = story_pk_here []"
| "story_pk_search (c # cs) =
     (case story_pk_here (c # cs) of
        Some pk \<Rightarrow> Some pk
      | None \<Rightarrow> story_pk_search cs)"

text \<open>\<open>urlMatch ? urlMatch[1] : null\<close>.\<close>

definition story_pk_of :: "string \<Rightarrow> js_string" where
  "story_pk_of url = (case story_pk_search url of Some pk \<Rightarrow> Str pk | None \<Rightarrow> Null)"

section \<open>Story items\<close>

text \<open>
  The object pushed by the walker (\<open>extractStoryDataFromPage\<close>). The two clock fields
  \<open>taken_at\<close> and \<open>expires_at\<close> are left out. An image story has no
  \<open>original_video_url\<close>, \<open>original_audio_url\<close> and \<open>local_video_id\<close>: they are \<open>Undefined\<close>.
\<close>

record story =
  ig_pk :: js_string
  username :: string
  caption :: js_string
  media_type :: nat
  is_video :: bool
  media_url :: js_string
  original_video_url :: js_string
  original_audio_url :: js_string
  local_video_id :: js_string
  thumbnail_url :: js_string
  permalink :: string
  story_link :: js_string

section \<open>Media classifier (\<open>isAudioOnly\<close>)\<close>

text \<open>
  The library calls of \<open>isAudioOnly\<close> are parameters of the model:
  \<^item> \<open>new_URL\<close> is \<open>new URL(url)\<close> followed by \<open>searchParams\<close>: a \<open>TypeError\<close> for a string
    that is no URL, otherwise the query parameters in order;
  \<^item> \<open>base64_utf8\<close> is \<open>Buffer.from(s, 'base64').toString('utf8')\<close>, which never throws;
  \<^item> \<open>JSON_parse\<close> is \<open>JSON.parse\<close>: a \<open>SyntaxError\<close> or a value.
\<close>

record js_lib =
  new_URL :: "string \<Rightarrow> js_error + (string \<times> string) list"
  base64_utf8 :: "string \<Rightarrow> string"
  JSON_parse :: "string \<Rightarrow> js_error + json"

text \<open>\<open>searchParams.get(name)\<close>: the first value of that name, or \<open>null\<close>.\<close>

definition searchParams_get :: "(string \<times> string) list \<Rightarrow> string \<Rightarrow> js_string" where
  "searchParams_get params name = (case map_of params name of Some v \<Rightarrow> Str v | None \<Rightarrow> Null)"

text \<open>
  \<open>decoded.encode_tag\<close>: a \<open>TypeError\<close> on \<open>null\<close>; the member of an object, or
  \<open>undefined\<close> (here \<open>None\<close>) when it has none; \<open>undefined\<close> on a boolean, a number, a
  string and an array, none of which has a property of that name.
\<close>

fun get_encode_tag :: "json \<Rightarrow> js_error + json option" where
  "get_encode_tag JNull = Inl TypeError"
| "get_encode_tag (JObject members) = Inr (map_of members ''encode_tag'')"
| "get_encode_tag (JBool b) = Inr None"
| "get_encode_tag (JNumber n) = Inr None"
| "get_encode_tag (JString s) = Inr None"
| "get_encode_tag (JArray xs) = Inr None"

text \<open>\<open>v || ''\<close>: the falsy values are \<open>undefined\<close>, \<open>null\<close>, \<open>false\<close>, \<open>0\<close> and \<open>''\<close>.\<close>

fun or_empty_string :: "json option \<Rightarrow> json" where
  "or_empty_string None = JString []"
| "or_empty_string (Some JNull) = JString []"
| "or_empty_string (Some (JBool b)) = (if b then JBool b else JString [])"
| "or_empty_string (Some (JNumber n)) = (if n = Num 0 then JString [] else JNumber n)"
| "or_empty_string (Some (JString s)) = JString s"
| "or_empty_string (Some (JArray xs)) = JArray xs"
| "or_empty_string (Some (JObject members)) = JObject members"

text \<open>
  \<open>v.toLowerCase()\<close>: only a string has the method; on every other value the call of
  \<open>undefined\<close> (or of a member that is no function) is a \<open>TypeError\<close>.
\<close>

fun call_toLowerCase :: "json \<Rightarrow> js_error + string" where
  "call_toLowerCase (JString s) = Inr (toLowerCase s)"
| "call_toLowerCase JNull = Inl TypeError"
| "call_toLowerCase (JBool b) = Inl TypeError"
| "call_toLowerCase (JNumber n) = Inl TypeError"
| "call_toLowerCase (JArray xs) = Inl TypeError"
| "call_toLowerCase (JObject members) = Inl TypeError"

text \<open>
  The two lines that compute \<open>tag\<close>:
  \<open>decoded = JSON.parse(Buffer.from(efg, 'base64').toString('utf8'))\<close> and
  \<open>tag = (decoded.encode_tag || '').toLowerCase()\<close>.
\<close>

definition encode_tag_of :: "js_lib \<Rightarrow> string \<Rightarrow> js_error + string" where
  "encode_tag_of L efg =
     (case JSON_parse L (base64_utf8 L efg) of
        Inl e \<Rightarrow> Inl e
      | Inr decoded \<Rightarrow>
          (case get_encode_tag decoded of
             Inl e \<Rightarrow> Inl e
           | Inr v \<Rightarrow> call_toLowerCase (or_empty_string v)))"

text \<open>The body of the \<open>try\<close> block.\<close>

definition isAudioOnly_try :: "js_lib \<Rightarrow> string \<Rightarrow> js_error + bool" where
  "isAudioOnly_try L url =
     (if str_includes url ''/m78/'' then Inr True
      else if str_includes url ''/m367/'' then Inr False
      else (case new_URL L url of
              Inl e \<Rightarrow> Inl e
            | Inr params \<Rightarrow>
                (case searchParams_get params ''efg'' of
                   Str efg \<Rightarrow>
                     (if efg = [] then Inr False
                      else (case encode_tag_of L efg of
                              Inl e \<Rightarrow> Inl e
                            | Inr tag \<Rightarrow>
                                Inr (str_includes tag ''audio'' \<and> \<not> str_includes tag ''vp9''
                                     \<and> \<not> str_includes tag ''avc'')))
                 | Null \<Rightarrow> Inr False
                 | Undefined \<Rightarrow> Inr False)))"

text \<open>\<open>try { ... } catch { return false; }\<close>: the result of the function as JavaScript sees it,
  a returned boolean (\<open>Inr\<close>) or an exception that escapes (\<open>Inl\<close>).\<close>

definition isAudioOnly :: "js_lib \<Rightarrow> string \<Rightarrow> js_error + bool" where
  "isAudioOnly L url =
     (case isAudioOnly_try L url of
        Inl e \<Rightarrow> Inr False
      | Inr b \<Rightarrow> Inr b)"

section \<open>Dedup ledger (\<open>StoryTracker\<close>)\<close>

text \<open>
  The tracker file: \<open>None\<close> when it is missing, cannot be read or holds no JSON text,
  otherwise the value \<open>JSON.parse\<close> gives for its text. The file the tracker writes holds
  the object \<open>{username, processed_ids, last_updated}\<close>; a file written by hand may hold
  any value.
\<close>

type_synonym ledger_file = "json option"


definition empty_tracker :: "string \<Rightarrow> json" where
  "empty_tracker uname =
     JObject [(''username'', JString uname), (''processed_ids'', JArray []),
              (''last_updated'', JNull)]"

text \<open>
  \<open>load\<close>: every failure of reading or parsing gives the empty tracker. So does the value
  \<open>null\<close>: the log line reads \<open>tracker.processed_ids\<close>, a \<open>TypeError\<close> on \<open>null\<close> that the
  \<open>catch\<close> block of \<open>load\<close> handles. Every other value is returned as it is.
\<close>

definition load :: "string \<Rightarrow> ledger_file \<Rightarrow> json" where
  "load uname file =
     (case file of
        None \<Rightarrow> empty_tracker uname
      | Some JNull \<Rightarrow> empty_tracker uname
      | Some tracker \<Rightarrow> tracker)"

text \<open>
  \<open>tracker.processed_ids\<close> on a value that is not \<open>null\<close>: the member of an object, and
  \<open>undefined\<close> (here \<open>None\<close>) on an object without it and on an array, a string, a
  number and a boolean.
\<close>

definition get_processed_ids :: "json \<Rightarrow> json option" where
  "get_processed_ids tracker =
     (case tracker of JObject members \<Rightarrow> map_of members ''processed_ids'' | _ \<Rightarrow> None)"

text \<open>\<open>tracker.processed_ids || []\<close>.\<close>

definition processed_ids_or_empty :: "json \<Rightarrow> json" where
  "processed_ids_or_empty tracker =
     (case get_processed_ids tracker of
        None \<Rightarrow> JArray []
      | Some v \<Rightarrow> (if json_truthy v then v else JArray []))"

text \<open>
  The elements \<open>new Set(v)\<close> iterates over: those of an array, the characters of a string;
  a \<open>TypeError\<close> for every other truthy value, which is not iterable.
\<close>

fun iterate :: "json \<Rightarrow> js_error + json list" where
  "iterate (JArray xs) = Inr xs"
| "iterate (JString s) = Inr (map (\<lambda>c. JString [c]) s)"
| "iterate JNull = Inl TypeError"
| "iterate (JBool b) = Inl TypeError"
| "iterate (JNumber n) = Inl TypeError"
| "iterate (JObject members) = Inl TypeError"

text \<open>\<open>new Set(tracker.processed_ids || [])\<close>.\<close>

definition processed_set :: "json \<Rightarrow> js_error + json list" where
  "processed_set tracker =
     (case iterate (processed_ids_or_empty tracker) of
        Inl e \<Rightarrow> Inl e
      | Inr xs \<Rightarrow> Inr (new_value_Set xs))"

definition getProcessedIds :: "string \<Rightarrow> ledger_file \<Rightarrow> js_error + json list" where
  "getProcessedIds uname file = processed_set (load uname file)"












section \<open>Network interceptor\<close>

text \<open>The three \<open>replace\<close> calls that strip the byte-range parameters.\<close>

definition clean_url :: "string \<Rightarrow> string" where
  "clean_url url =
     (let cleanUrl1 = replace_all [Lit ''&bytestart='', Digits, Lit ''&byteend='', Digits] [] 0 url;
          cleanUrl2 = replace_all [Lit ''?bytestart='', Digits, Lit ''&byteend='', Digits, Lit ''&'']
                        ''?'' 0 cleanUrl1
      in replace_all [Lit ''?bytestart='', Digits, Lit ''&byteend='', Digits] [] 0 cleanUrl2)"

record media_slot =
  video :: js_string
  audio :: js_string

text \<open>
  The variables the request listener closes over: the two sets of every URL captured
  during the walk and the slot of the current story.
\<close>

record captured =
  capturedVideos :: "string list"
  capturedAudios :: "string list"
  currentStoryMedia :: media_slot

text \<open>The listener \<open>page.on('request', ...)\<close>, on the URL of one request.\<close>

definition on_request :: "js_lib \<Rightarrow> string \<Rightarrow> 'a captured_scheme \<Rightarrow> 'a captured_scheme" where
  "on_request L url st =
     (if (str_includes url ''fbcdn.net'' \<or> str_includes url ''cdninstagram.com'')
         \<and> str_includes url ''.mp4''
      then (let cleanUrl = clean_url url;
                audioOnly = (isAudioOnly L cleanUrl = Inr True)
            in if audioOnly
               then (if \<not> set_has (capturedAudios st) cleanUrl
                     then st\<lparr>capturedAudios := set_add (capturedAudios st) cleanUrl,
                             currentStoryMedia := (currentStoryMedia st)\<lparr>audio := Str cleanUrl\<rparr>\<rparr>
                     else st)
               else (if \<not> set_has (capturedVideos st) cleanUrl
                     then st\<lparr>capturedVideos := set_add (capturedVideos st) cleanUrl,
                             currentStoryMedia := (currentStoryMedia st)\<lparr>video := Str cleanUrl\<rparr>\<rparr>
                     else st))
      else st)"

text \<open>The listener on the requests that fire, in order, while the walker awaits.\<close>

definition on_requests :: "js_lib \<Rightarrow> string list \<Rightarrow> 'a captured_scheme \<Rightarrow> 'a captured_scheme" where
  "on_requests L urls st = foldl (\<lambda>s url. on_request L url s) st urls"

section \<open>Media reconciliation (\<open>processStory\<close>)\<close>

type_synonym bytes = "8 word list"

type_synonym files = "string \<rightharpoonup> bytes"

text \<open>Decimal printing of a number in a template literal.\<close>

fun show_nat :: "nat \<Rightarrow> string" where
  "show_nat n =
     (if n < 10 then [''0123456789'' ! n]
      else show_nat (n div 10) @ [''0123456789'' ! (n mod 10)])"

declare show_nat.simps [simp del]

definition show_int :: "int \<Rightarrow> string" where
  "show_int i = (if i < 0 then CHR ''-'' # show_nat (nat (- i)) else show_nat (nat i))"

text \<open>
  What the outside world does during one call of \<open>processStory\<close>: the identifier
  \<open>uuidv4()\<close> gives, whether \<open>ensureDirectories\<close> and \<open>fs.copyFile\<close> throw (and with which
  message), the bytes the page's \<open>fetch\<close> of a URL gives (\<open>None\<close> for every failure caught
  inside \<open>downloadFile\<close>), and how the \<open>ffmpeg\<close> process ends: a \<open>close\<close> event with its
  exit code (\<open>None\<close> is the code \<open>null\<close> of a killed process) and the file it left at
  the output path, or an \<open>error\<close> event.
\<close>

datatype ffmpeg_outcome = Closed "int option" "bytes option" | SpawnError string

record proc_env =
  uuid :: string
  mkdir_error :: "string option"
  fetch_bytes :: "string \<Rightarrow> bytes option"
  ffmpeg :: ffmpeg_outcome
  copy_error :: "string option"

text \<open>\<open>{success: true, videoId, localPath, url}\<close> or \<open>{success: false, error}\<close>.\<close>

datatype process_result = Success string string string | Failure string

definition videoPath :: "proc_env \<Rightarrow> string" where
  "videoPath env = ''temp_media/'' @ uuid env @ ''_video.mp4''"

definition audioPath :: "proc_env \<Rightarrow> string" where
  "audioPath env = ''temp_media/'' @ uuid env @ ''_audio.m4a''"

definition outputPath :: "proc_env \<Rightarrow> string" where
  "outputPath env = ''video_stories/'' @ uuid env @ ''.mp4''"

definition downloadFile :: "proc_env \<Rightarrow> string \<Rightarrow> string \<Rightarrow> files \<Rightarrow> bool \<times> files" where
  "downloadFile env url destination fs =
     (case fetch_bytes env url of
        Some data \<Rightarrow> (True, fs(destination \<mapsto> data))
      | None \<Rightarrow> (False, fs))"

definition show_code :: "int option \<Rightarrow> string" where
  "show_code code = (case code of Some n \<Rightarrow> show_int n | None \<Rightarrow> ''null'')"

text \<open>
  \<open>combineVideoAudio\<close>: the promise resolves on exit code 0 and rejects on every other
  code and on a spawn error.
\<close>

definition combineVideoAudio ::
  "proc_env \<Rightarrow> string \<Rightarrow> string \<Rightarrow> string \<Rightarrow> files \<Rightarrow> (js_error + unit) \<times> files" where
  "combineVideoAudio env vpath apath opath fs =
     (case ffmpeg env of
        Closed code out \<Rightarrow>
          (let fs' = (case out of Some data \<Rightarrow> fs(opath \<mapsto> data) | None \<Rightarrow> fs)
           in if code = Some 0 then (Inr (), fs')
              else (Inl (Error (''ffmpeg failed with exit code '' @ show_code code)), fs'))
      | SpawnError msg \<Rightarrow> (Inl (Error (''ffmpeg spawn error: '' @ msg)), fs))"

definition copyFile :: "proc_env \<Rightarrow> string \<Rightarrow> string \<Rightarrow> files \<Rightarrow> (js_error + unit) \<times> files" where
  "copyFile env src dst fs =
     (case copy_error env of
        Some msg \<Rightarrow> (Inl (Error msg), fs)
      | None \<Rightarrow>
          (case fs src of
             Some data \<Rightarrow> (Inr (), fs(dst \<mapsto> data))
           | None \<Rightarrow> (Inl (Error ''ENOENT''), fs)))"

definition unlink :: "string \<Rightarrow> files \<Rightarrow> files" where
  "unlink path fs = fs(path := None)"

text \<open>The \<open>try\<close> block of \<open>processStory\<close> up to the cleanup of the temporary files.\<close>

definition processStory_try ::
  "proc_env \<Rightarrow> string \<Rightarrow> js_string \<Rightarrow> files \<Rightarrow> (js_error + unit) \<times> files" where
  "processStory_try env videoUrl audioUrl fs =
     (case mkdir_error env of
        Some msg \<Rightarrow> (Inl (Error msg), fs)
      | None \<Rightarrow>
          (case downloadFile env videoUrl (videoPath env) fs of
             (videoDownloaded, fs1) \<Rightarrow>
               if \<not> videoDownloaded then (Inl (Error ''Failed to download video''), fs1)
               else (case audioUrl of
                       Str a \<Rightarrow>
                         (if a \<noteq> []
                          then (case downloadFile env a (audioPath env) fs1 of
                                  (audioDownloaded, fs2) \<Rightarrow>
                                    if audioDownloaded
                                    then combineVideoAudio env (videoPath env) (audioPath env)
                                           (outputPath env) fs2
                                    else copyFile env (videoPath env) (outputPath env) fs2)
                          else copyFile env (videoPath env) (outputPath env) fs1)
                     | Null \<Rightarrow> copyFile env (videoPath env) (outputPath env) fs1
                     | Undefined \<Rightarrow> copyFile env (videoPath env) (outputPath env) fs1)))"

definition message :: "js_error \<Rightarrow> string" where
  "message e = (case e of Error m \<Rightarrow> m | TypeError \<Rightarrow> ''TypeError''
                | SyntaxError \<Rightarrow> ''SyntaxError'' | RangeError \<Rightarrow> ''RangeError'')"

text \<open>
  \<open>processStory\<close>: on success the temporary inputs are removed; in the \<open>catch\<close> block the
  temporary inputs and the output file are removed and the failure is returned.
\<close>

definition processStory ::
  "proc_env \<Rightarrow> string \<Rightarrow> js_string \<Rightarrow> files \<Rightarrow> process_result \<times> files" where
  "processStory env videoUrl audioUrl fs =
     (case processStory_try env videoUrl audioUrl fs of
        (Inr u, fs') \<Rightarrow>
          (Success (uuid env) (outputPath env) (''/videos/'' @ uuid env @ ''.mp4''),
           (if truthy audioUrl then unlink (audioPath env) (unlink (videoPath env) fs')
            else unlink (videoPath env) fs'))
      | (Inl error, fs') \<Rightarrow>
          (Failure (message error),
           unlink (outputPath env) (unlink (audioPath env) (unlink (videoPath env) fs'))))"

section \<open>Story walker (\<open>extractStoryDataFromPage\<close>)\<close>

record config =
  igTargetUsername :: string
  instagramUrl :: string
  SERVER_URL :: string

text \<open>
  The part of the page the callback of \<open>page.evaluate\<close> reads: of every \<open>video\<close> element
  its \<open>src\<close>, whether its \<open>offsetParent\<close> is \<open>null\<close>, and its \<open>poster\<close> (both properties are
  strings, empty when the attribute is missing); the \<open>textContent\<close> of every \<open>span\<close>; the
  \<open>href\<close> of every \<open>a[href]\<close>, each list in document order.
\<close>

record video_element =
  src :: string
  offsetParent_null :: bool
  poster :: string

record story_dom =
  video_elements :: "video_element list"
  span_texts :: "string list"
  hrefs :: "string list"

text \<open>The object the callback returns.\<close>

record content =
  isVideo :: bool
  dom_caption :: js_string
  link :: js_string
  posterUrl :: js_string

text \<open>The tests of the three \<open>for\<close> loops of the callback; each loop stops at the first hit.\<close>

definition visible_video :: "video_element \<Rightarrow> bool" where
  "visible_video v = (src v \<noteq> [] \<and> \<not> offsetParent_null v)"

definition caption_text :: "string \<Rightarrow> bool" where
  "caption_text t =
     (t \<noteq> [] \<and> length t > 5 \<and> length t < 500
      \<and> \<not> str_includes t ''Close'' \<and> \<not> str_includes t ''More''
      \<and> \<not> str_includes t ''View'' \<and> \<not> str_includes t ''Follow'')"

definition outbound_link :: "string \<Rightarrow> bool" where
  "outbound_link href =
     (href \<noteq> [] \<and> \<not> str_includes href ''instagram.com'' \<and> \<not> startsWith href ''#'')"

text \<open>
  The callback of \<open>page.evaluate\<close>: \<open>isVideo\<close> and \<open>posterUrl\<close> are set together, from the
  first visible video; without one \<open>posterUrl\<close> stays \<open>null\<close>.
\<close>

definition page_evaluate :: "story_dom \<Rightarrow> content" where
  "page_evaluate d =
     \<lparr>isVideo = (find visible_video (video_elements d) \<noteq> None),
      dom_caption = (case find caption_text (map trim (span_texts d)) of
                       Some t \<Rightarrow> Str t
                     | None \<Rightarrow> Null),
      link = (case find outbound_link (hrefs d) of Some href \<Rightarrow> Str href | None \<Rightarrow> Null),
      posterUrl = (case find visible_video (video_elements d) of
                     Some v \<Rightarrow> Str (poster v)
                   | None \<Rightarrow> Null)\<rparr>"

text \<open>
  What the browser does during one iteration of the \<open>while\<close> loop. JavaScript runs the
  request listener only while the walker awaits, so the requests of an iteration are
  grouped by the \<open>await\<close> during which they fire: the settle wait of 1500 ms, the DOM
  evaluation, the call of \<open>processStory\<close>, and the key press with its wait of 600 ms.
  \<open>settle_ok\<close> is false when the settle wait throws, \<open>page_dom\<close> is the page the callback
  runs on, or \<open>None\<close> when the evaluation throws, \<open>press_ok\<close> is false when the key press
  or its wait throws.
\<close>

record cycle =
  reqs_settle :: "string list"
  settle_ok :: bool
  page_url :: string
  reqs_evaluate :: "string list"
  page_dom :: "story_dom option"
  proc :: proc_env
  reqs_process :: "string list"
  reqs_advance :: "string list"
  press_ok :: bool

text \<open>
  The local variables of the walk, \<open>this.seenPks\<close> and the files \<open>processStory\<close> works on.
\<close>

record walk_state = captured +
  stories :: "story list"
  storyIndex :: nat
  noContentCount :: nat
  lastUrl :: string
  seenPks :: "json list"
  files :: files

datatype step_result = Continue walk_state | Break walk_state | Thrown

text \<open>The two object literals pushed on \<open>stories\<close>.\<close>

definition video_item ::
  "config \<Rightarrow> js_string \<Rightarrow> content \<Rightarrow> js_string \<Rightarrow> js_string \<Rightarrow> js_string \<Rightarrow> js_string \<Rightarrow> story" where
  "video_item cfg storyPk c videoUrl audioUrl finalMediaUrl localVideoId =
     \<lparr>ig_pk = storyPk,
      username = igTargetUsername cfg,
      caption = dom_caption c,
      media_type = 2,
      is_video = True,
      media_url = finalMediaUrl,
      original_video_url = videoUrl,
      original_audio_url = audioUrl,
      local_video_id = localVideoId,
      thumbnail_url = js_or (posterUrl c) videoUrl,
      permalink = instagramUrl cfg @ ''/stories/'' @ igTargetUsername cfg @ ''/''
                  @ str_val storyPk @ ''/'',
      story_link = link c\<rparr>"

definition image_item :: "config \<Rightarrow> js_string \<Rightarrow> content \<Rightarrow> js_string \<Rightarrow> story" where
  "image_item cfg storyPk c imageUrl =
     \<lparr>ig_pk = storyPk,
      username = igTargetUsername cfg,
      caption = dom_caption c,
      media_type = 1,
      is_video = False,
      media_url = imageUrl,
      original_video_url = Undefined,
      original_audio_url = Undefined,
      local_video_id = Undefined,
      thumbnail_url = imageUrl,
      permalink = instagramUrl cfg @ ''/stories/'' @ igTargetUsername cfg @ ''/''
                  @ str_val storyPk @ ''/'',
      story_link = link c\<rparr>"

text \<open>The comparison of the location with the one of the iteration before.\<close>

definition note_url :: "string \<Rightarrow> walk_state \<Rightarrow> walk_state" where
  "note_url currentUrl2 st =
     (if currentUrl2 = lastUrl st \<and> storyIndex st > 0
      then st\<lparr>noContentCount := noContentCount st + 1\<rparr>
      else st\<lparr>lastUrl := currentUrl2, noContentCount := 0\<rparr>)"

text \<open>
  ``Go to next story'': the block that ends both paths of the loop body. A failed key
  press leaves the loop.
\<close>

definition advance :: "js_lib \<Rightarrow> cycle \<Rightarrow> walk_state \<Rightarrow> step_result" where
  "advance L c st =
     (if noContentCount st < 3
      then (if press_ok c then Continue (on_requests L (reqs_advance c) st) else Break st)
      else Continue st)"

text \<open>The branch \<open>videoUrl && storyPk && content.isVideo\<close>.\<close>

definition video_story_branch ::
  "js_lib \<Rightarrow> config \<Rightarrow> cycle \<Rightarrow> js_string \<Rightarrow> content \<Rightarrow> js_string \<Rightarrow> js_string
   \<Rightarrow> walk_state \<Rightarrow> walk_state" where
  "video_story_branch L cfg c storyPk cont videoUrl audioUrl st =
     (if \<not> has_id (seenPks st) storyPk
      then (let st1 = st\<lparr>seenPks := add_id (seenPks st) storyPk\<rparr>;
                processed = processStory (proc c) (str_val videoUrl) audioUrl (files st1);
                st2 = on_requests L (reqs_process c) (st1\<lparr>files := snd processed\<rparr>);
                finalMediaUrl = (case fst processed of
                                   Success videoId localPath url \<Rightarrow> Str (SERVER_URL cfg @ url)
                                 | Failure err \<Rightarrow> videoUrl);
                localVideoId = (case fst processed of
                                  Success videoId localPath url \<Rightarrow> Str videoId
                                | Failure err \<Rightarrow> Null)
            in st2\<lparr>stories := stories st2 @
                 [video_item cfg storyPk cont videoUrl audioUrl finalMediaUrl localVideoId]\<rparr>)
      else st)"

text \<open>The choice of \<open>imageUrl\<close> in the branch \<open>storyPk && !content.isVideo\<close>.\<close>

definition select_image_url :: "string list \<Rightarrow> content \<Rightarrow> js_string" where
  "select_image_url capturedVideos_set cont =
     (if length capturedVideos_set > 0 then Str (last capturedVideos_set)
      else if truthy (posterUrl cont) \<and> \<not> startsWith (str_val (posterUrl cont)) ''blob:''
      then posterUrl cont
      else Null)"

definition image_story_branch ::
  "config \<Rightarrow> js_string \<Rightarrow> content \<Rightarrow> walk_state \<Rightarrow> walk_state" where
  "image_story_branch cfg storyPk cont st =
     (let imageUrl = select_image_url (capturedVideos st) cont
      in if truthy imageUrl \<and> \<not> has_id (seenPks st) storyPk
         then st\<lparr>seenPks := add_id (seenPks st) storyPk,
                 stories := stories st @ [image_item cfg storyPk cont imageUrl]\<rparr>
         else st\<lparr>noContentCount := noContentCount st + 1\<rparr>)"

text \<open>
  The loop body after the check of the seen set: the DOM evaluation, the snapshot and
  reset of the slot, the three branches, the increment of \<open>storyIndex\<close> and the advance.
\<close>

definition evaluate_story ::
  "js_lib \<Rightarrow> config \<Rightarrow> cycle \<Rightarrow> js_string \<Rightarrow> walk_state \<Rightarrow> step_result" where
  "evaluate_story L cfg c storyPk st =
     (let st1 = on_requests L (reqs_evaluate c) st
      in case page_dom c of
           None \<Rightarrow> Thrown
         | Some d \<Rightarrow>
             (let cont = page_evaluate d;
                  videoUrl = video (currentStoryMedia st1);
                  audioUrl = audio (currentStoryMedia st1);
                  st2 = st1\<lparr>currentStoryMedia := \<lparr>video = Null, audio = Null\<rparr>\<rparr>;
                  st3 = (if truthy videoUrl \<and> truthy storyPk \<and> isVideo cont
                         then video_story_branch L cfg c storyPk cont videoUrl audioUrl st2
                         else if truthy storyPk \<and> \<not> isVideo cont
                         then image_story_branch cfg storyPk cont st2
                         else st2\<lparr>noContentCount := noContentCount st2 + 1\<rparr>)
              in advance L c (st3\<lparr>storyIndex := storyIndex st3 + 1\<rparr>)))"

text \<open>One iteration of the \<open>while\<close> loop.\<close>

definition walk_step :: "js_lib \<Rightarrow> config \<Rightarrow> cycle \<Rightarrow> walk_state \<Rightarrow> step_result" where
  "walk_step L cfg c st =
     (if \<not> settle_ok c then Thrown
      else (let st1 = note_url (page_url c) (on_requests L (reqs_settle c) st);
                storyPk = story_pk_of (page_url c)
            in if truthy storyPk \<and> has_id (seenPks st1) storyPk
               then advance L c (st1\<lparr>storyIndex := storyIndex st1 + 1\<rparr>)
               else evaluate_story L cfg c storyPk st1))"

text \<open>
  How the loop ends: its condition \<open>noContentCount < 3\<close> fails, a \<open>break\<close>, or an
  exception that the outer \<open>catch\<close> turns into the empty batch.
\<close>

datatype walk_exit = Exhausted walk_state | Broken walk_state | Caught

text \<open>
  The \<open>while\<close> loop. The browser is the stream of what it does in each iteration, read at
  \<open>storyIndex\<close>, which counts the iterations. The loop need not end when the location
  keeps changing, so it runs on fuel, one unit for each iteration: \<open>None\<close> is a loop still
  running when the fuel is used up.
\<close>

fun walk_loop ::
  "js_lib \<Rightarrow> config \<Rightarrow> (nat \<Rightarrow> cycle) \<Rightarrow> nat \<Rightarrow> walk_state \<Rightarrow> walk_exit option" where
  "walk_loop L cfg browser 0 st =
     (if noContentCount st < 3 then None else Some (Exhausted st))"
| "walk_loop L cfg browser (Suc fuel) st =
     (if noContentCount st < 3
      then (case walk_step L cfg (browser (storyIndex st)) st of
              Continue st' \<Rightarrow> walk_loop L cfg browser fuel st'
            | Break st' \<Rightarrow> Some (Broken st')
            | Thrown \<Rightarrow> Some Caught)
      else Some (Exhausted st))"

definition returned_stories :: "walk_exit \<Rightarrow> story list" where
  "returned_stories x =
     (case x of Exhausted st \<Rightarrow> stories st | Broken st \<Rightarrow> stories st | Caught \<Rightarrow> [])"

definition initial_state :: "json list \<Rightarrow> files \<Rightarrow> walk_state" where
  "initial_state seen fs =
     \<lparr>capturedVideos = [], capturedAudios = [],
      currentStoryMedia = \<lparr>video = Null, audio = Null\<rparr>,
      stories = [], storyIndex = 0, noContentCount = 0, lastUrl = [],
      seenPks = seen, files = fs\<rparr>"

text \<open>
  The seen set the walk starts with: \<open>this.seenPks\<close>, loaded from the tracker file when it
  is empty.
\<close>

definition walk_start :: "config \<Rightarrow> ledger_file \<Rightarrow> json list \<Rightarrow> js_error + json list" where
  "walk_start cfg file seen =
     (if length seen = 0 then getProcessedIds (igTargetUsername cfg) file else Inr seen)"

text \<open>
  \<open>extractStoryDataFromPage\<close>: \<open>currentUrl\<close> is the location when the function starts and
  \<open>seen\<close> is \<open>this.seenPks\<close>. An exception of \<open>getProcessedIds\<close> is caught like every other
  one and gives the empty batch.
\<close>

definition extractStoryDataFromPage ::
  "js_lib \<Rightarrow> config \<Rightarrow> ledger_file \<Rightarrow> (nat \<Rightarrow> cycle) \<Rightarrow> nat \<Rightarrow> string \<Rightarrow> json list
   \<Rightarrow> files \<Rightarrow> story list option" where
  "extractStoryDataFromPage L cfg file browser fuel currentUrl seen fs =
     (if \<not> str_includes currentUrl ''/stories/'' then Some []
      else (case walk_start cfg file seen of
              Inl e \<Rightarrow> Some []
            | Inr seen' \<Rightarrow>
                map_option returned_stories
                  (walk_loop L cfg browser fuel (initial_state seen' fs))))"

section \<open>Range media server (\<open>GET /stream/:id.mp4\<close>)\<close>







text \<open>\<open>s.split(d)\<close> on one character: there is always a first part.\<close>

fun split_on :: "char \<Rightarrow> string \<Rightarrow> string list" where
  "split_on d [] = [[]]"
| "split_on d (c # cs) =
     (if c = d then [] # split_on d cs
      else (case split_on d cs of
              p # ps \<Rightarrow> (c # p) # ps
            | [] \<Rightarrow> [[c]]))"















section \<open>Sample inputs\<close>

text \<open>
  Concrete inputs for the examples below. \<open>sample_lib\<close> stands in for the library on the
  sample URLs: a string is a URL when it starts with \<open>https://\<close>, and its query is cut at
  \<open>&\<close> and \<open>=\<close>; the base64 texts of the sample descriptors decode to their JSON texts,
  which parse to the values they write; every other text is no JSON.
\<close>

definition efg_audio_aac :: string where
  "efg_audio_aac = ''eyJlbmNvZGVfdGFnIjoiZGFzaF9BVURJT19hYWMifQ''"

definition efg_audio_vp9 :: string where
  "efg_audio_vp9 = ''eyJlbmNvZGVfdGFnIjoiYXVkaW9fdnA5In0''"

definition efg_avc_audio :: string where
  "efg_avc_audio = ''eyJlbmNvZGVfdGFnIjoiYXZjX2F1ZGlvIn0''"

definition efg_h264 :: string where
  "efg_h264 = ''eyJlbmNvZGVfdGFnIjoiZGFzaF9oMjY0In0''"

definition efg_no_tag :: string where
  "efg_no_tag = ''eyJ4IjoxfQ''"

definition efg_null :: string where
  "efg_null = ''bnVsbA''"

definition efg_number_tag :: string where
  "efg_number_tag = ''eyJlbmNvZGVfdGFnIjo1fQ''"

definition efg_no_json :: string where
  "efg_no_json = ''e29vcHM''"

definition sample_base64 :: "(string \<times> string) list" where
  \<open>sample_base64 =
     [(efg_audio_aac, ''{"encode_tag":"dash_AUDIO_aac"}''),
      (efg_audio_vp9, ''{"encode_tag":"audio_vp9"}''),
      (efg_avc_audio, ''{"encode_tag":"avc_audio"}''),
      (efg_h264, ''{"encode_tag":"dash_h264"}''),
      (efg_no_tag, ''{"x":1}''),
      (efg_null, ''null''),
      (efg_number_tag, ''{"encode_tag":5}''),
      (efg_no_json, ''{oops'')]\<close>

definition sample_json :: "(string \<times> json) list" where
  \<open>sample_json =
     [(''{"encode_tag":"dash_AUDIO_aac"}'', JObject [(''encode_tag'', JString ''dash_AUDIO_aac'')]),
      (''{"encode_tag":"audio_vp9"}'', JObject [(''encode_tag'', JString ''audio_vp9'')]),
      (''{"encode_tag":"avc_audio"}'', JObject [(''encode_tag'', JString ''avc_audio'')]),
      (''{"encode_tag":"dash_h264"}'', JObject [(''encode_tag'', JString ''dash_h264'')]),
      (''{"x":1}'', JObject [(''x'', JNumber (Num 1))]),
      (''null'', JNull),
      (''{"encode_tag":5}'', JObject [(''encode_tag'', JNumber (Num 5))])]\<close>

definition sample_new_URL :: "string \<Rightarrow> js_error + (string \<times> string) list" where
  "sample_new_URL u =
     (if startsWith u ''https://''
      then Inr (map (\<lambda>kv. (takeWhile (\<lambda>c. c \<noteq> CHR ''='') kv,
                            drop 1 (dropWhile (\<lambda>c. c \<noteq> CHR ''='') kv)))
                  (filter (\<lambda>kv. kv \<noteq> [])
                     (split_on CHR ''&'' (drop 1 (dropWhile (\<lambda>c. c \<noteq> CHR ''?'') u)))))
      else Inl TypeError)"

definition sample_lib :: js_lib where
  "sample_lib =
     \<lparr>new_URL = sample_new_URL,
      base64_utf8 = (\<lambda>s. case map_of sample_base64 s of Some t \<Rightarrow> t | None \<Rightarrow> []),
      JSON_parse = (\<lambda>t. case map_of sample_json t of
                           Some v \<Rightarrow> Inr v
                         | None \<Rightarrow> Inl SyntaxError)\<rparr>"

definition audio_tier_url :: string where
  "audio_tier_url = ''https://a.fbcdn.net/m78/a.mp4''"

definition video_tier_url :: string where
  "video_tier_url = ''https://v.fbcdn.net/m367/v.mp4''"





definition sample_config :: config where
  "sample_config =
     \<lparr>igTargetUsername = ''target'', instagramUrl = ''https://www.instagram.com'',
      SERVER_URL = ''http://localhost:3000''\<rparr>"

text \<open>A page that shows an image story, and a page that shows a video story.\<close>

definition image_dom :: story_dom where
  "image_dom = \<lparr>video_elements = [], span_texts = [], hrefs = []\<rparr>"

definition video_dom :: story_dom where
  "video_dom =
     \<lparr>video_elements = [\<lparr>src = ''blob:https://www.instagram.com/0a1b'',
                          offsetParent_null = False, poster = []\<rparr>],
      span_texts = [], hrefs = []\<rparr>"







text \<open>Two byte-range fetches of the same video, and a request that is no media request.\<close>

definition first_range_request :: string where
  "first_range_request = video_tier_url @ ''?bytestart=0&byteend=9''"

definition second_range_request :: string where
  "second_range_request = video_tier_url @ ''?bytestart=10&byteend=19''"

definition logo_request :: string where
  "logo_request = ''https://www.instagram.com/logo.png''"

text \<open>
  Sample walks. The download of every media file fails in them, so that \<open>processStory\<close>
  fails and the walker falls back to the captured URL.
\<close>

definition offline_env :: proc_env where
  "offline_env =
     \<lparr>uuid = ''0a1b'', mkdir_error = None, fetch_bytes = (\<lambda>u. None),
      ffmpeg = Closed (Some 0) None, copy_error = None\<rparr>"

definition url_111 :: string where
  "url_111 = ''https://www.instagram.com/stories/target/111/''"

definition url_222 :: string where
  "url_222 = ''https://www.instagram.com/stories/target/222/''"

text \<open>Story 111 is on screen, a video, and the browser requests it during the settle wait.\<close>

definition cycle_111 :: cycle where
  "cycle_111 =
     \<lparr>reqs_settle = [video_tier_url], settle_ok = True, page_url = url_111,
      reqs_evaluate = [], page_dom = Some video_dom, proc = offline_env,
      reqs_process = [], reqs_advance = [], press_ok = True\<rparr>"


text \<open>Story 222 is on screen, a video, and no request fires.\<close>

definition cycle_222_video :: cycle where
  "cycle_222_video =
     \<lparr>reqs_settle = [], settle_ok = True, page_url = url_222,
      reqs_evaluate = [], page_dom = Some video_dom, proc = offline_env,
      reqs_process = [], reqs_advance = [], press_ok = True\<rparr>"

text \<open>Story 222 is on screen, an image, and no request fires.\<close>

definition cycle_222_image :: cycle where
  "cycle_222_image = cycle_222_video\<lparr>page_dom := Some image_dom\<rparr>"

text \<open>Story 111, then story 222 as a video for the rest of the walk.\<close>

definition browser_111_then_video :: "nat \<Rightarrow> cycle" where
  "browser_111_then_video i = (if i = 0 then cycle_111 else cycle_222_video)"

text \<open>Story 111, then story 222 as an image for the rest of the walk.\<close>

definition browser_111_then_image :: "nat \<Rightarrow> cycle" where
  "browser_111_then_image i = (if i = 0 then cycle_111 else cycle_222_image)"


section \<open>Invariant of the walk\<close>

text \<open>
  Every emitted item has a truthy identifier that is in the seen set, and no two emitted
  items have the same identifier.
\<close>

definition batch_ok :: "walk_state \<Rightarrow> bool" where
  "batch_ok st =
     ((\<forall>s \<in> set (stories st). truthy (ig_pk s) \<and> has_id (seenPks st) (ig_pk s))
      \<and> distinct (map ig_pk (stories st)))"

text \<open>A property of the state a loop iteration or the loop ends in.\<close>

definition step_holds :: "(walk_state \<Rightarrow> bool) \<Rightarrow> step_result \<Rightarrow> bool" where
  "step_holds P r = (case r of Continue st \<Rightarrow> P st | Break st \<Rightarrow> P st | Thrown \<Rightarrow> True)"

definition exit_holds :: "(walk_state \<Rightarrow> bool) \<Rightarrow> walk_exit \<Rightarrow> bool" where
  "exit_holds P x = (case x of Exhausted st \<Rightarrow> P st | Broken st \<Rightarrow> P st | Caught \<Rightarrow> True)"



section \<open>Properties of the ledger\<close>

lemma set_value_set_add: "set (value_set_add S x) = insert x (set S)"
  by (auto simp: value_set_add_def)




lemma has_id_add_id:
  "has_id (add_id S k) j = (has_id S j \<or> (j = k \<and> k \<noteq> Undefined))"
  by (auto simp: has_id_def add_id_def set_value_set_add split: js_string.splits)





















section \<open>Properties of the media classifier\<close>


lemma str_includes_empty: "str_includes [] t = (t = [])"
  by simp










text \<open>
  C10. On every string the classifier returns a boolean and no exception escapes it;
  whenever the body of its \<open>try\<close> block throws, the answer is video (\<open>false\<close>).
\<close>

theorem isAudioOnly_total:
  "(\<exists>b. isAudioOnly L url = Inr b)
   \<and> (\<forall>e. isAudioOnly_try L url = Inl e \<longrightarrow> isAudioOnly L url = Inr False)"
  by (cases "isAudioOnly_try L url") (auto simp: isAudioOnly_def)

theorem isAudioOnly_total_witness:
  "isAudioOnly_try sample_lib ''not a url'' = Inl TypeError
   \<and> isAudioOnly sample_lib ''not a url'' = Inr False"
  using isAudioOnly_total [of sample_lib "''not a url''"]
  by (simp add: isAudioOnly_try_def sample_lib_def sample_new_URL_def startsWith_def)

section \<open>Properties of the media reconciliation\<close>

text \<open>The request listener touches the captured media only.\<close>

lemma on_request_walk_fields:
  "stories (on_request L url st) = stories st"
  "storyIndex (on_request L url st) = storyIndex st"
  "noContentCount (on_request L url st) = noContentCount st"
  "lastUrl (on_request L url st) = lastUrl st"
  "seenPks (on_request L url st) = seenPks st"
  "files (on_request L url st) = files st"
  by (simp_all add: on_request_def Let_def)

lemma on_requests_walk_fields:
  "stories (on_requests L urls st) = stories st"
  "storyIndex (on_requests L urls st) = storyIndex st"
  "noContentCount (on_requests L urls st) = noContentCount st"
  "lastUrl (on_requests L urls st) = lastUrl st"
  "seenPks (on_requests L urls st) = seenPks st"
  "files (on_requests L urls st) = files st"
  unfolding on_requests_def
  by (induction urls arbitrary: st; simp add: on_request_walk_fields)+





section \<open>Properties of the range media server\<close>

























section \<open>Properties of the network interceptor\<close>

text \<open>Facts about the sample requests.\<close>

lemma sample_requests_match:
  "str_includes first_range_request ''fbcdn.net'' \<and> str_includes first_range_request ''.mp4''
   \<and> str_includes second_range_request ''fbcdn.net'' \<and> str_includes second_range_request ''.mp4''
   \<and> str_includes audio_tier_url ''fbcdn.net'' \<and> str_includes audio_tier_url ''.mp4''
   \<and> str_includes video_tier_url ''fbcdn.net'' \<and> str_includes video_tier_url ''.mp4''"
  by (simp add: first_range_request_def second_range_request_def video_tier_url_def
      audio_tier_url_def startsWith_def)

lemma sample_requests_clean:
  "clean_url first_range_request = video_tier_url
   \<and> clean_url second_range_request = video_tier_url
   \<and> clean_url video_tier_url = video_tier_url
   \<and> clean_url audio_tier_url = audio_tier_url"
  by (simp add: first_range_request_def second_range_request_def video_tier_url_def
      audio_tier_url_def clean_url_def startsWith_def is_digit_def)

lemma sample_requests_kind:
  "isAudioOnly L video_tier_url = Inr False \<and> isAudioOnly L audio_tier_url = Inr True"
  by (simp add: video_tier_url_def audio_tier_url_def isAudioOnly_def isAudioOnly_try_def
      startsWith_def)

lemma logo_request_no_match: "\<not> str_includes logo_request ''.mp4''"
  by (simp add: logo_request_def startsWith_def)

text \<open>
  C4 (as amended). A matching media request whose normalized URL has not been captured
  before during the walk overwrites the slot's field of its kind (and joins the set of
  captured URLs of that kind); the other field is untouched. A matching request whose
  normalized URL is already in the set of its kind changes nothing: the slot keeps what
  it holds, also when the walker has reset it in between. Every other request changes
  nothing.
\<close>

theorem on_request_overwrites_unseen_only:
  "((str_includes url ''fbcdn.net'' \<or> str_includes url ''cdninstagram.com'')
      \<and> str_includes url ''.mp4'' \<and> isAudioOnly L (clean_url url) \<noteq> Inr True
      \<and> clean_url url \<notin> set (capturedVideos st)
     \<longrightarrow> video (currentStoryMedia (on_request L url st)) = Str (clean_url url)
         \<and> audio (currentStoryMedia (on_request L url st)) = audio (currentStoryMedia st)
         \<and> capturedVideos (on_request L url st) = capturedVideos st @ [clean_url url]
         \<and> capturedAudios (on_request L url st) = capturedAudios st)
   \<and> ((str_includes url ''fbcdn.net'' \<or> str_includes url ''cdninstagram.com'')
      \<and> str_includes url ''.mp4'' \<and> isAudioOnly L (clean_url url) = Inr True
      \<and> clean_url url \<notin> set (capturedAudios st)
     \<longrightarrow> audio (currentStoryMedia (on_request L url st)) = Str (clean_url url)
         \<and> video (currentStoryMedia (on_request L url st)) = video (currentStoryMedia st)
         \<and> capturedAudios (on_request L url st) = capturedAudios st @ [clean_url url]
         \<and> capturedVideos (on_request L url st) = capturedVideos st)
   \<and> ((str_includes url ''fbcdn.net'' \<or> str_includes url ''cdninstagram.com'')
      \<and> str_includes url ''.mp4'' \<and> isAudioOnly L (clean_url url) \<noteq> Inr True
      \<and> clean_url url \<in> set (capturedVideos st)
     \<longrightarrow> on_request L url st = st)
   \<and> ((str_includes url ''fbcdn.net'' \<or> str_includes url ''cdninstagram.com'')
      \<and> str_includes url ''.mp4'' \<and> isAudioOnly L (clean_url url) = Inr True
      \<and> clean_url url \<in> set (capturedAudios st)
     \<longrightarrow> on_request L url st = st)
   \<and> (\<not> ((str_includes url ''fbcdn.net'' \<or> str_includes url ''cdninstagram.com'')
          \<and> str_includes url ''.mp4'')
     \<longrightarrow> on_request L url st = st)"
  by (simp add: on_request_def Let_def set_has_def set_add_def)

theorem on_request_overwrites_unseen_only_witness:
  "video (currentStoryMedia (on_request sample_lib first_range_request
               (initial_state [] Map.empty))) = Str video_tier_url
   \<and> capturedVideos (on_request sample_lib first_range_request (initial_state [] Map.empty))
       = [video_tier_url]
   \<and> audio (currentStoryMedia (on_request sample_lib audio_tier_url
               (initial_state [] Map.empty))) = Str audio_tier_url
   \<and> on_request sample_lib second_range_request
        ((initial_state [] Map.empty)\<lparr>capturedVideos := [video_tier_url]\<rparr>)
       = (initial_state [] Map.empty)\<lparr>capturedVideos := [video_tier_url]\<rparr>
   \<and> on_request sample_lib audio_tier_url
        ((initial_state [] Map.empty)\<lparr>capturedAudios := [audio_tier_url]\<rparr>)
       = (initial_state [] Map.empty)\<lparr>capturedAudios := [audio_tier_url]\<rparr>
   \<and> on_request sample_lib logo_request (initial_state [] Map.empty)
       = initial_state [] Map.empty"
  using on_request_overwrites_unseen_only [where L = sample_lib and url = first_range_request
      and st = "initial_state [] Map.empty"]
    on_request_overwrites_unseen_only [where L = sample_lib and url = audio_tier_url
      and st = "initial_state [] Map.empty"]
    on_request_overwrites_unseen_only [where L = sample_lib and url = second_range_request
      and st = "(initial_state [] Map.empty)\<lparr>capturedVideos := [video_tier_url]\<rparr>"]
    on_request_overwrites_unseen_only [where L = sample_lib and url = audio_tier_url
      and st = "(initial_state [] Map.empty)\<lparr>capturedAudios := [audio_tier_url]\<rparr>"]
    on_request_overwrites_unseen_only [where L = sample_lib
      and url = logo_request and st = "initial_state [] Map.empty"]
  by (simp add: sample_requests_match sample_requests_clean sample_requests_kind
      logo_request_no_match initial_state_def)

text \<open>
  The claim as stated fails: after a first byte-range fetch of a video and the walker's
  reset of the slot, a second byte-range fetch of the same video leaves the slot empty,
  although its normalized URL is the most recently observed one.
\<close>

theorem on_request_repeated_url_counterexample:
  "clean_url first_range_request = video_tier_url
   \<and> clean_url second_range_request = video_tier_url
   \<and> isAudioOnly sample_lib video_tier_url = Inr False
   \<and> video (currentStoryMedia (on_request sample_lib first_range_request
               (initial_state [] Map.empty))) = Str video_tier_url
   \<and> video (currentStoryMedia (on_request sample_lib second_range_request
               ((on_request sample_lib first_range_request (initial_state [] Map.empty))
                  \<lparr>currentStoryMedia := \<lparr>video = Null, audio = Null\<rparr>\<rparr>))) = Null"
  by (simp add: sample_requests_match sample_requests_clean sample_requests_kind
      on_request_def Let_def set_has_def set_add_def initial_state_def)

section \<open>Properties of the story walker\<close>

subsection \<open>The emitted batch\<close>

lemma batch_ok_on_requests: "batch_ok (on_requests L urls st) = batch_ok st"
  by (simp add: batch_ok_def on_requests_walk_fields)

lemma batch_ok_updates:
  "batch_ok (st\<lparr>noContentCount := n\<rparr>) = batch_ok st"
  "batch_ok (st\<lparr>storyIndex := i\<rparr>) = batch_ok st"
  "batch_ok (st\<lparr>lastUrl := u\<rparr>) = batch_ok st"
  "batch_ok (st\<lparr>currentStoryMedia := m\<rparr>) = batch_ok st"
  by (simp_all add: batch_ok_def)

lemma step_holds_Thrown: "step_holds P Thrown"
  by (simp add: step_holds_def)

lemma truthy_defined: "truthy k \<Longrightarrow> k \<noteq> Undefined"
  by (cases k) simp_all

lemma batch_ok_emit:
  assumes "batch_ok st" and "truthy pk" and "\<not> has_id (seenPks st) pk" and "ig_pk item = pk"
    and "seenPks st' = add_id (seenPks st) pk" and "stories st' = stories st @ [item]"
  shows "batch_ok st'"
  using assms truthy_defined [of pk] by (auto simp: batch_ok_def has_id_add_id)

lemma batch_ok_video_story_branch:
  assumes "batch_ok st" and "truthy pk"
  shows "batch_ok (video_story_branch L cfg c pk cont v a st)"
proof (cases "has_id (seenPks st) pk")
  case True
  then show ?thesis using assms by (simp add: video_story_branch_def)
next
  case False
  show ?thesis
    by (rule batch_ok_emit [OF assms(1) assms(2) False, where item =
          "video_item cfg pk cont v a
             (case fst (processStory (proc c) (str_val v) a (files st)) of
                Success videoId localPath url \<Rightarrow> Str (SERVER_URL cfg @ url)
              | Failure err \<Rightarrow> v)
             (case fst (processStory (proc c) (str_val v) a (files st)) of
                Success videoId localPath url \<Rightarrow> Str videoId
              | Failure err \<Rightarrow> Null)"])
      (simp_all add: False video_story_branch_def Let_def on_requests_walk_fields video_item_def)
qed

lemma batch_ok_image_story_branch:
  assumes "batch_ok st" and "truthy pk"
  shows "batch_ok (image_story_branch cfg pk cont st)"
proof (cases "truthy (select_image_url (capturedVideos st) cont) \<and> \<not> has_id (seenPks st) pk")
  case True
  then have f: "\<not> has_id (seenPks st) pk" by simp
  show ?thesis
    by (rule batch_ok_emit [OF assms(1) assms(2) f, where item =
          "image_item cfg pk cont (select_image_url (capturedVideos st) cont)"])
      (simp_all add: True image_story_branch_def Let_def image_item_def)
next
  case False
  then show ?thesis using assms by (auto simp: image_story_branch_def Let_def batch_ok_updates)
qed

lemma batch_ok_advance: "batch_ok st \<Longrightarrow> step_holds batch_ok (advance L c st)"
  by (simp add: advance_def step_holds_def batch_ok_on_requests)

lemma batch_ok_evaluate_story:
  assumes "batch_ok st"
  shows "step_holds batch_ok (evaluate_story L cfg c pk st)"
proof (cases "page_dom c")
  case None
  then show ?thesis by (simp add: evaluate_story_def Let_def step_holds_Thrown)
next
  case (Some d)
  let ?cont = "page_evaluate d"
  let ?st1 = "on_requests L (reqs_evaluate c) st"
  let ?st2 = "?st1\<lparr>currentStoryMedia := \<lparr>video = Null, audio = Null\<rparr>\<rparr>"
  have ok2: "batch_ok ?st2"
    using assms by (simp add: batch_ok_updates batch_ok_on_requests)
  let ?st3 = "if truthy (video (currentStoryMedia ?st1)) \<and> truthy pk \<and> isVideo ?cont
              then video_story_branch L cfg c pk ?cont (video (currentStoryMedia ?st1))
                     (audio (currentStoryMedia ?st1)) ?st2
              else if truthy pk \<and> \<not> isVideo ?cont
              then image_story_branch cfg pk ?cont ?st2
              else ?st2\<lparr>noContentCount := noContentCount ?st2 + 1\<rparr>"
  have ok3: "batch_ok ?st3"
    using ok2 by (simp add: batch_ok_video_story_branch batch_ok_image_story_branch
        batch_ok_updates del: media_slot.simps captured.simps walk_state.simps)
  have "batch_ok (?st3\<lparr>storyIndex := storyIndex ?st3 + 1\<rparr>)"
    using ok3 by (simp only: batch_ok_updates)
  then have "step_holds batch_ok (advance L c (?st3\<lparr>storyIndex := storyIndex ?st3 + 1\<rparr>))"
    by (rule batch_ok_advance)
  then show ?thesis
    using Some by (simp add: evaluate_story_def Let_def)
qed

lemma batch_ok_walk_step:
  assumes "batch_ok st"
  shows "step_holds batch_ok (walk_step L cfg c st)"
proof -
  let ?st1 = "note_url (page_url c) (on_requests L (reqs_settle c) st)"
  have ok1: "batch_ok ?st1"
    using assms by (simp add: note_url_def batch_ok_updates batch_ok_on_requests)
  then have "batch_ok (?st1\<lparr>storyIndex := storyIndex ?st1 + 1\<rparr>)"
    by (simp only: batch_ok_updates)
  then have a: "step_holds batch_ok (advance L c (?st1\<lparr>storyIndex := storyIndex ?st1 + 1\<rparr>))"
    by (rule batch_ok_advance)
  have b: "step_holds batch_ok (evaluate_story L cfg c (story_pk_of (page_url c)) ?st1)"
    using ok1 by (rule batch_ok_evaluate_story)
  show ?thesis
    using a b by (simp add: walk_step_def Let_def step_holds_Thrown)
qed

lemma batch_ok_walk_loop:
  "batch_ok st \<Longrightarrow> walk_loop L cfg browser fuel st = Some x \<Longrightarrow> exit_holds batch_ok x"
proof (induction fuel arbitrary: st)
  case 0
  then show ?case by (auto simp: exit_holds_def split: if_splits)
next
  case (Suc fuel)
  show ?case
  proof (cases "noContentCount st < 3")
    case False
    with Suc.prems show ?thesis by (auto simp: exit_holds_def)
  next
    case True
    have s: "step_holds batch_ok (walk_step L cfg (browser (storyIndex st)) st)"
      using Suc.prems(1) by (rule batch_ok_walk_step)
    show ?thesis
    proof (cases "walk_step L cfg (browser (storyIndex st)) st")
      case (Continue st')
      with s have "batch_ok st'" by (simp add: step_holds_def)
      moreover have "walk_loop L cfg browser fuel st' = Some x"
        using Suc.prems(2) True Continue by simp
      ultimately show ?thesis by (rule Suc.IH)
    next
      case (Break st')
      with s have "batch_ok st'" by (simp add: step_holds_def)
      moreover have "x = Broken st'" using Suc.prems(2) True Break by simp
      ultimately show ?thesis by (simp add: exit_holds_def)
    next
      case Thrown
      then have "x = Caught" using Suc.prems(2) True by simp
      then show ?thesis by (simp add: exit_holds_def)
    qed
  qed
qed

lemma batch_ok_initial: "batch_ok (initial_state seen fs)"
  by (simp add: batch_ok_def initial_state_def)

text \<open>
  C9. Every item of the batch a walk returns has a platform identifier that is a
  non-empty string (neither \<open>null\<close> nor \<open>undefined\<close>), and no two items of the batch have
  the same identifier.
\<close>

theorem returned_batch_identifiers_distinct:
  assumes "extractStoryDataFromPage L cfg ledger browser fuel currentUrl seen fs = Some batch"
  shows "(\<forall>s \<in> set batch. truthy (ig_pk s) \<and> ig_pk s \<noteq> Null \<and> ig_pk s \<noteq> Undefined)
         \<and> distinct (map ig_pk batch)"
proof (cases "str_includes currentUrl ''/stories/''")
  case False
  with assms have "batch = []" by (simp add: extractStoryDataFromPage_def)
  then show ?thesis by simp
next
  case True
  show ?thesis
  proof (cases "walk_start cfg ledger seen")
    case (Inl e)
    with assms True have "batch = []" by (simp add: extractStoryDataFromPage_def)
    then show ?thesis by simp
  next
    case (Inr seen')
    with assms True obtain x where
      x: "walk_loop L cfg browser fuel (initial_state seen' fs) = Some x"
      and b: "batch = returned_stories x"
      by (auto simp: extractStoryDataFromPage_def)
    have "exit_holds batch_ok x"
      using batch_ok_initial x by (rule batch_ok_walk_loop)
    then have "(\<forall>s \<in> set batch. truthy (ig_pk s)) \<and> distinct (map ig_pk batch)"
      using b by (cases x) (auto simp: exit_holds_def returned_stories_def batch_ok_def)
    then show ?thesis by auto
  qed
qed

subsection \<open>Termination\<close>















subsection \<open>Sample walks\<close>

text \<open>Facts about the sample inputs, used to run the walk on them.\<close>

lemma sample_story_urls:
  "story_pk_of url_111 = Str ''111'' \<and> story_pk_of url_222 = Str ''222''
   \<and> str_includes url_111 ''/stories/'' \<and> url_111 \<noteq> url_222 \<and> url_222 \<noteq> url_111
   \<and> url_111 \<noteq> [] \<and> url_222 \<noteq> []"
  by (simp add: url_111_def url_222_def story_pk_of_def story_pk_here_def startsWith_def
      is_digit_def)

lemma sample_contents:
  "page_evaluate video_dom
     = \<lparr>isVideo = True, dom_caption = Null, link = Null, posterUrl = Str []\<rparr>
   \<and> page_evaluate image_dom
     = \<lparr>isVideo = False, dom_caption = Null, link = Null, posterUrl = Null\<rparr>"
  by (simp add: page_evaluate_def video_dom_def image_dom_def visible_video_def)

lemma video_tier_url_truthy: "video_tier_url \<noteq> []"
  by (simp add: video_tier_url_def)

lemma offline_processStory:
  "processStory offline_env v a fs = (Failure ''Failed to download video'',
     unlink (outputPath offline_env) (unlink (audioPath offline_env)
       (unlink (videoPath offline_env) fs)))"
  by (simp add: processStory_def processStory_try_def downloadFile_def offline_env_def
      message_def)

lemma walk_start_empty: "walk_start cfg None [] = Inr []"
  by (simp add: walk_start_def getProcessedIds_def load_def empty_tracker_def processed_set_def
      processed_ids_or_empty_def get_processed_ids_def new_value_Set_def)

lemma walk_start_loaded: "seen \<noteq> [] \<Longrightarrow> walk_start cfg ledger seen = Inr seen"
  by (simp add: walk_start_def)


lemmas walk_eval =
  walk_step_def note_url_def evaluate_story_def advance_def video_story_branch_def
  image_story_branch_def select_image_url_def on_requests_def on_request_def Let_def
  set_has_def set_add_def has_id_def add_id_def value_set_add_def
  initial_state_def returned_stories_def
  sample_requests_match sample_requests_clean sample_requests_kind sample_story_urls
  video_tier_url_truthy offline_processStory sample_contents

lemma numeral_fuel: "(5::nat) = Suc (Suc (Suc (Suc (Suc 0))))" "(4::nat) = Suc (Suc (Suc (Suc 0)))"
  by simp_all


lemma walk_111_then_image:
  "extractStoryDataFromPage sample_lib sample_config None browser_111_then_image 5
        url_111 [] Map.empty
      = Some [video_item sample_config (Str ''111'') (page_evaluate video_dom)
                (Str video_tier_url) Null (Str video_tier_url) Null,
              image_item sample_config (Str ''222'') (page_evaluate image_dom)
                (Str video_tier_url)]"
  by (simp add: walk_eval extractStoryDataFromPage_def walk_start_empty numeral_fuel
      browser_111_then_image_def cycle_111_def cycle_222_image_def cycle_222_video_def)



theorem returned_batch_identifiers_distinct_witness:
  "extractStoryDataFromPage sample_lib sample_config None browser_111_then_image 5
        url_111 [] Map.empty
      = Some [video_item sample_config (Str ''111'') (page_evaluate video_dom)
                (Str video_tier_url) Null (Str video_tier_url) Null,
              image_item sample_config (Str ''222'') (page_evaluate image_dom)
                (Str video_tier_url)]
   \<and> ig_pk (video_item sample_config (Str ''111'') (page_evaluate video_dom)
                (Str video_tier_url) Null (Str video_tier_url) Null) = Str ''111''
   \<and> ig_pk (image_item sample_config (Str ''222'') (page_evaluate image_dom)
                (Str video_tier_url))
       = Str ''222''
   \<and> distinct (map ig_pk
         [video_item sample_config (Str ''111'') (page_evaluate video_dom)
                (Str video_tier_url) Null (Str video_tier_url) Null,
          image_item sample_config (Str ''222'') (page_evaluate image_dom)
                (Str video_tier_url)])"
  using returned_batch_identifiers_distinct [OF walk_111_then_image]
  by (simp add: walk_111_then_image video_item_def image_item_def)

subsection \<open>The slot at a skipped story\<close>

text \<open>
  C3. The walk run on a failing input: story 111 is in the seen set and the browser
  requests its video while it is on screen. The iteration takes the skip path, which
  does not reset the slot: after it the slot still holds the video URL of story 111.
  Story 222, a video for which no request fires, is then emitted with the video URL of
  story 111.
\<close>

theorem skipped_story_keeps_slot:
  "has_id [JString ''111''] (story_pk_of (page_url cycle_111))
   \<and> walk_step sample_lib sample_config cycle_111 (initial_state [JString ''111''] Map.empty)
     = Continue ((initial_state [JString ''111''] Map.empty)
         \<lparr>capturedVideos := [video_tier_url],
          currentStoryMedia := \<lparr>video = Str video_tier_url, audio = Null\<rparr>,
          storyIndex := 1, lastUrl := url_111\<rparr>)
   \<and> reqs_settle cycle_222_video @ reqs_evaluate cycle_222_video = []
   \<and> extractStoryDataFromPage sample_lib sample_config None browser_111_then_video 5
        url_111 [JString ''111''] Map.empty
      = Some [video_item sample_config (Str ''222'') (page_evaluate video_dom)
                (Str video_tier_url) Null (Str video_tier_url) Null]"
  by (simp add: walk_eval extractStoryDataFromPage_def walk_start_def numeral_fuel
      browser_111_then_video_def cycle_111_def cycle_222_video_def)

subsection \<open>The URL of an image story\<close>

text \<open>
  The callback of \<open>page.evaluate\<close> sets \<open>posterUrl\<close> only together with \<open>isVideo\<close>. In the
  image branch, which is taken when \<open>isVideo\<close> is false, \<open>posterUrl\<close> is therefore \<open>null\<close>
  and the poster clause never gives a URL: the image URL is the last of the video URLs
  captured since the walk began, or there is none.
\<close>

lemma poster_only_with_video:
  "\<not> isVideo (page_evaluate d) \<Longrightarrow> posterUrl (page_evaluate d) = Null"
  by (simp add: page_evaluate_def)

lemma image_url_of_page:
  "\<not> isVideo (page_evaluate d) \<Longrightarrow>
   select_image_url cv (page_evaluate d) = (if cv = [] then Null else Str (last cv))"
  by (simp add: select_image_url_def poster_only_with_video)

lemma image_story_branch_of_page:
  assumes "\<not> isVideo (page_evaluate d)" and "\<not> has_id (seenPks st) pk"
    and "capturedVideos st \<noteq> []" and "last (capturedVideos st) \<noteq> []"
  shows "stories (image_story_branch cfg pk (page_evaluate d) st)
         = stories st @ [image_item cfg pk (page_evaluate d) (Str (last (capturedVideos st)))]"
  using assms by (simp add: image_story_branch_def image_url_of_page Let_def)

text \<open>
  C5. The walk run on a failing input: story 111 is a video whose URL is captured while
  it is on screen; story 222 is an image (the page shows no visible video) and no
  request fires while it is on screen. The image item of story 222 gets the video URL
  of story 111 as its media URL.
\<close>

theorem image_story_gets_earlier_video_url:
  "reqs_settle cycle_111 = [video_tier_url]
   \<and> reqs_settle cycle_222_image @ reqs_evaluate cycle_222_image
       @ reqs_process cycle_222_image @ reqs_advance cycle_222_image = []
   \<and> page_dom cycle_222_image = Some image_dom
   \<and> page_evaluate image_dom
       = \<lparr>isVideo = False, dom_caption = Null, link = Null, posterUrl = Null\<rparr>
   \<and> extractStoryDataFromPage sample_lib sample_config None browser_111_then_image 5
        url_111 [] Map.empty
      = Some [video_item sample_config (Str ''111'') (page_evaluate video_dom)
                (Str video_tier_url) Null (Str video_tier_url) Null,
              image_item sample_config (Str ''222'') (page_evaluate image_dom)
                (Str video_tier_url)]
   \<and> media_url (image_item sample_config (Str ''222'') (page_evaluate image_dom)
                  (Str video_tier_url))
       = Str video_tier_url"
  by (simp add: walk_111_then_image sample_contents cycle_111_def cycle_222_image_def
      cycle_222_video_def image_item_def)

end
